theory Spec2Isabelle
  imports Main "HOL-Library.Word"
begin

section \<open>The DeepStream metadata schema (includes/nvdsmeta\_schema.h)\<close>

text \<open>
  The header declares three tag enumerations, the value structures of an event message,
  the object structures that can hang off an event's extension pointer, and one
  constructor (of the analytics block). It has no other function: a structure is read
  and written through its public members.
\<close>

subsection \<open>Scalar types\<close>

text \<open>
  \<open>gint\<close> and \<open>int\<close> are 32-bit signed (read with \<open>sint\<close>), \<open>guint\<close> is 32-bit
  unsigned, \<open>guint64\<close> 64-bit unsigned. A \<open>float\<close> or \<open>gdouble\<close> member is kept as
  its IEEE-754 bit pattern: the header only ever stores the constant zero into one, and
  the pattern of \<open>+0.0\<close> is the word \<open>0\<close>. A \<open>gchar *\<close> is \<open>None\<close> for the null
  pointer and the string it points to otherwise.
\<close>

type_synonym gint = "32 word"
type_synonym guint = "32 word"
type_synonym guint64 = "64 word"
type_synonym gfloat = "32 word"
type_synonym gdouble = "64 word"
type_synonym gchar_ptr = "string option"

subsection \<open>Tag enumerations\<close>

text \<open>
  Lines 44 to 102. Each enumeration is the datatype of its enumerators, in the order of the header, with
  the function that gives an enumerator's integer value: an enumerator without an
  initialiser is its predecessor plus one, the first one is 0.
\<close>

datatype NvDsEventType =
    NVDS_EVENT_ENTRY
  | NVDS_EVENT_EXIT
  | NVDS_EVENT_MOVING
  | NVDS_EVENT_STOPPED
  | NVDS_EVENT_EMPTY
  | NVDS_EVENT_PARKED
  | NVDS_EVENT_RESET
  | NVDS_EVENT_RESERVED
  | NVDS_EVENT_CUSTOM
  | NVDS_EVENT_FRAME_ANALYSIS
  | NVDS_EVENT_FORCE32

fun NvDsEventType_value :: "NvDsEventType \<Rightarrow> int" where
  "NvDsEventType_value NVDS_EVENT_ENTRY = 0"
| "NvDsEventType_value NVDS_EVENT_EXIT = 1"
| "NvDsEventType_value NVDS_EVENT_MOVING = 2"
| "NvDsEventType_value NVDS_EVENT_STOPPED = 3"
| "NvDsEventType_value NVDS_EVENT_EMPTY = 4"
| "NvDsEventType_value NVDS_EVENT_PARKED = 5"
| "NvDsEventType_value NVDS_EVENT_RESET = 6"
| "NvDsEventType_value NVDS_EVENT_RESERVED = 0x100"
| "NvDsEventType_value NVDS_EVENT_CUSTOM = 0x101"
| "NvDsEventType_value NVDS_EVENT_FRAME_ANALYSIS = 0x102"
| "NvDsEventType_value NVDS_EVENT_FORCE32 = 0x7FFFFFFF"

datatype NvDsObjectType =
    NVDS_OBJECT_TYPE_VEHICLE
  | NVDS_OBJECT_TYPE_PERSON
  | NVDS_OBJECT_TYPE_FACE
  | NVDS_OBJECT_TYPE_BAG
  | NVDS_OBJECT_TYPE_BICYCLE
  | NVDS_OBJECT_TYPE_ROADSIGN
  | NVDS_OBJECT_TYPE_VEHICLE_EXT
  | NVDS_OBJECT_TYPE_PERSON_EXT
  | NVDS_OBJECT_TYPE_FACE_EXT
  | NVDS_OBJECT_TYPE_PRODUCT
  | NVDS_OBJECT_TYPE_PRODUCT_EXT
  | NVDS_OBJECT_TYPE_RESERVED
  | NVDS_OBJECT_TYPE_CUSTOM
  | NVDS_OBJECT_TYPE_UNKNOWN
  | NVDS_OBJECT_TYPE_FRAME_ANALYSIS
  | NVDS_OBEJCT_TYPE_FORCE32

fun NvDsObjectType_value :: "NvDsObjectType \<Rightarrow> int" where
  "NvDsObjectType_value NVDS_OBJECT_TYPE_VEHICLE = 0"
| "NvDsObjectType_value NVDS_OBJECT_TYPE_PERSON = 1"
| "NvDsObjectType_value NVDS_OBJECT_TYPE_FACE = 2"
| "NvDsObjectType_value NVDS_OBJECT_TYPE_BAG = 3"
| "NvDsObjectType_value NVDS_OBJECT_TYPE_BICYCLE = 4"
| "NvDsObjectType_value NVDS_OBJECT_TYPE_ROADSIGN = 5"
| "NvDsObjectType_value NVDS_OBJECT_TYPE_VEHICLE_EXT = 6"
| "NvDsObjectType_value NVDS_OBJECT_TYPE_PERSON_EXT = 7"
| "NvDsObjectType_value NVDS_OBJECT_TYPE_FACE_EXT = 8"
| "NvDsObjectType_value NVDS_OBJECT_TYPE_PRODUCT = 9"
| "NvDsObjectType_value NVDS_OBJECT_TYPE_PRODUCT_EXT = 10"
| "NvDsObjectType_value NVDS_OBJECT_TYPE_RESERVED = 0x100"
| "NvDsObjectType_value NVDS_OBJECT_TYPE_CUSTOM = 0x101"
| "NvDsObjectType_value NVDS_OBJECT_TYPE_UNKNOWN = 0x102"
| "NvDsObjectType_value NVDS_OBJECT_TYPE_FRAME_ANALYSIS = 0x103"
| "NvDsObjectType_value NVDS_OBEJCT_TYPE_FORCE32 = 0x7FFFFFFF"

datatype NvDsPayloadType =
    NVDS_PAYLOAD_DEEPSTREAM
  | NVDS_PAYLOAD_DEEPSTREAM_MINIMAL
  | NVDS_PAYLOAD_DEEPSTREAM_PROTOBUF
  | NVDS_PAYLOAD_RESERVED
  | NVDS_PAYLOAD_CUSTOM
  | NVDS_PAYLOAD_FORCE32

fun NvDsPayloadType_value :: "NvDsPayloadType \<Rightarrow> int" where
  "NvDsPayloadType_value NVDS_PAYLOAD_DEEPSTREAM = 0"
| "NvDsPayloadType_value NVDS_PAYLOAD_DEEPSTREAM_MINIMAL = 1"
| "NvDsPayloadType_value NVDS_PAYLOAD_DEEPSTREAM_PROTOBUF = 2"
| "NvDsPayloadType_value NVDS_PAYLOAD_RESERVED = 0x100"
| "NvDsPayloadType_value NVDS_PAYLOAD_CUSTOM = 0x101"
| "NvDsPayloadType_value NVDS_PAYLOAD_FORCE32 = 0x7FFFFFFF"

text \<open>
  A tag member of a structure holds the integer: custom kinds are values that no
  enumerator names ("Custom events must be assigned values greater than" the
  \<open>RESERVED\<close> enumerator).
\<close>

type_synonym enum_tag = int

subsection \<open>Value structures\<close>

text \<open>
  Member names are the header's, with the structure's short name in front where the
  header uses one name in several structures (\<open>type\<close>, \<open>gender\<close>, \<open>x\<close>,
  \<open>size\<close>, \<open>confidence\<close>, \<open>componentId\<close>, \<open>mask\<close>) or where the bare name
  is a constant of HOL (\<open>top\<close>, \<open>size\<close>).
\<close>

record NvDsRect =
  rect_top :: gfloat
  rect_left :: gfloat
  rect_width :: gfloat
  rect_height :: gfloat

record NvDsGeoLocation =
  lat :: gdouble
  lon :: gdouble
  alt :: gdouble

record NvDsCoordinate =
  coord_x :: gdouble
  coord_y :: gdouble
  coord_z :: gdouble

text \<open>
  A pointer to an array is kept as the array it points to (the empty list for the null
  pointer): the number of elements really stored is the length of that list, whatever
  the count member beside it says.
\<close>

record NvDsObjectSignature =
  signature :: "gdouble list"
  signature_size :: guint

text \<open>
  A \<open>GList *mask\<close> is "a list of polygons"; the header does not declare what a
  polygon is.
\<close>

typedecl polygon

type_synonym GList = "polygon list"

record NvDsProductObjectExt =
  prodx_brand :: gchar_ptr
  prodx_type :: gchar_ptr
  prodx_shape :: gchar_ptr
  prodx_mask :: GList

record NvDsVehicleObject =
  veh_type :: gchar_ptr
  veh_make :: gchar_ptr
  veh_model :: gchar_ptr
  veh_color :: gchar_ptr
  veh_region :: gchar_ptr
  veh_license :: gchar_ptr

record NvDsPersonObject =
  per_gender :: gchar_ptr
  per_hair :: gchar_ptr
  per_cap :: gchar_ptr
  per_apparel :: gchar_ptr
  per_age :: guint

record NvDsFaceObject =
  face_gender :: gchar_ptr
  face_hair :: gchar_ptr
  face_cap :: gchar_ptr
  face_glasses :: gchar_ptr
  face_facialhair :: gchar_ptr
  face_name :: gchar_ptr
  face_eyecolor :: gchar_ptr
  face_age :: guint

record NvDsVehicleObjectExt =
  vehx_type :: gchar_ptr
  vehx_make :: gchar_ptr
  vehx_model :: gchar_ptr
  vehx_color :: gchar_ptr
  vehx_region :: gchar_ptr
  vehx_license :: gchar_ptr
  vehx_mask :: GList

record NvDsPersonObjectExt =
  perx_gender :: gchar_ptr
  perx_hair :: gchar_ptr
  perx_cap :: gchar_ptr
  perx_apparel :: gchar_ptr
  perx_age :: guint
  perx_mask :: GList

record NvDsFaceObjectExt =
  facex_gender :: gchar_ptr
  facex_hair :: gchar_ptr
  facex_cap :: gchar_ptr
  facex_glasses :: gchar_ptr
  facex_facialhair :: gchar_ptr
  facex_name :: gchar_ptr
  facex_eyecolor :: gchar_ptr
  facex_age :: guint
  facex_mask :: GList

record NvDsJoint =
  joint_x :: gfloat
  joint_y :: gfloat
  joint_z :: gfloat
  joint_confidence :: gfloat

record NvDsJoints =
  joints :: "NvDsJoint list"
  num_joints :: gint
  pose_type :: gint

record NvDsEmbedding =
  embedding_vector :: "gfloat list"
  embedding_length :: guint

record NvDsProductObject =
  prod_brand :: gchar_ptr
  prod_type :: gchar_ptr
  prod_shape :: gchar_ptr

datatype ObjectMoveDirectionType =
    MOVE_UP
  | MOVE_DOWN
  | MOVE_LEFT
  | MOVE_RIGHT
  | MOVE_RIGHT_UP
  | MOVE_RIGHT_DOWN
  | MOVE_LEFT_UP
  | MOVE_LEFT_DOWN
  | MOVE_LITTLE
  | NO_DIRECTION

datatype ObjectStatusType =
    VEHICLE_LONG_PARK
  | PERSON_LONG_STANDING
  | PERSON_LONG_WALK
  | PERSON_LOITERING
  | PERSON_BREAKIN
  | PERSON_JAYWALK
  | PERSON_OVERCROWD
  | COLLIDE_PRE
  | COLLIDE_CLOSE
  | OBJ_MOVE
  | NO_STATUS

subsection \<open>The analytics block and its constructor\<close>

text \<open>
  \<open>gint arrayLaneNumber[4]\<close> is a list; a block is well formed when the list has the
  array's four slots.
\<close>

record AnalyticsObjectMeta =
  objMoveDIrection :: ObjectMoveDirectionType
  objStatus :: ObjectStatusType
  move_length :: gfloat
  time_gap_move_millisec :: gfloat
  move_speed :: gfloat
  time_gap_longstay_millisec :: gfloat
  arrayLaneNumber :: "gint list"
  laneArraySize :: gint
  reverseLaneNo :: gint

definition wf_AnalyticsObjectMeta :: "AnalyticsObjectMeta \<Rightarrow> bool" where
  "wf_AnalyticsObjectMeta a = (length (arrayLaneNumber a) = 4)"

text \<open>
  Lines 310 to 316. The constructor runs on the storage of the new object and returns it after the body:
  a member the body does not assign keeps what the storage held (C++ gives it no value).
  The body is four statements; the chained assignment
  \<open>arrayLaneNumber[0] = arrayLaneNumber[1] = arrayLaneNumber[2] = arrayLaneNumber[3] = -1\<close>
  assigns from the right, each assignment yielding the value it stored.
\<close>

definition AnalyticsObjectMeta_ctor :: "AnalyticsObjectMeta \<Rightarrow> AnalyticsObjectMeta" where
  "AnalyticsObjectMeta_ctor this =
     (let s1 = this\<lparr>move_speed := 0\<rparr>;
          s2 = s1\<lparr>arrayLaneNumber := (arrayLaneNumber s1)[3 := - 1]\<rparr>;
          s3 = s2\<lparr>arrayLaneNumber := (arrayLaneNumber s2)[2 := - 1]\<rparr>;
          s4 = s3\<lparr>arrayLaneNumber := (arrayLaneNumber s3)[1 := - 1]\<rparr>;
          s5 = s4\<lparr>arrayLaneNumber := (arrayLaneNumber s4)[0 := - 1]\<rparr>;
          s6 = s5\<lparr>laneArraySize := 0\<rparr>
      in s6\<lparr>reverseLaneNo := - 1\<rparr>)"

subsection \<open>The event message\<close>

text \<open>
  \<open>gpointer extMsg\<close> points to whatever the producer attached: one of the object
  structures of this header, or storage of the producer's own ("a custom object"),
  which the header sees as bytes. The pointer is kept as the object it points to,
  \<open>None\<close> for the null pointer.
\<close>

datatype ext_object =
    VehicleObject NvDsVehicleObject
  | PersonObject NvDsPersonObject
  | FaceObject NvDsFaceObject
  | VehicleObjectExt NvDsVehicleObjectExt
  | PersonObjectExt NvDsPersonObjectExt
  | FaceObjectExt NvDsFaceObjectExt
  | ProductObject NvDsProductObject
  | ProductObjectExt NvDsProductObjectExt
  | CustomObject "8 word list"

type_synonym gpointer = "ext_object option"

text \<open>
  The object type each structure is declared for (the enumerator of its name); custom
  storage has none of the header's.
\<close>

fun ext_object_kind :: "ext_object \<Rightarrow> NvDsObjectType option" where
  "ext_object_kind (VehicleObject v) = Some NVDS_OBJECT_TYPE_VEHICLE"
| "ext_object_kind (PersonObject v) = Some NVDS_OBJECT_TYPE_PERSON"
| "ext_object_kind (FaceObject v) = Some NVDS_OBJECT_TYPE_FACE"
| "ext_object_kind (VehicleObjectExt v) = Some NVDS_OBJECT_TYPE_VEHICLE_EXT"
| "ext_object_kind (PersonObjectExt v) = Some NVDS_OBJECT_TYPE_PERSON_EXT"
| "ext_object_kind (FaceObjectExt v) = Some NVDS_OBJECT_TYPE_FACE_EXT"
| "ext_object_kind (ProductObject v) = Some NVDS_OBJECT_TYPE_PRODUCT"
| "ext_object_kind (ProductObjectExt v) = Some NVDS_OBJECT_TYPE_PRODUCT_EXT"
| "ext_object_kind (CustomObject bs) = None"

record NvDsEventMsgMeta =
  msg_type :: enum_tag
  objType :: enum_tag
  bbox :: NvDsRect
  location :: NvDsGeoLocation
  coordinate :: NvDsCoordinate
  objSignature :: NvDsObjectSignature
  objClassId :: gint
  sensorId :: gint
  moduleId :: gint
  placeId :: gint
  componentId :: gint
  frameId :: gint
  confidence :: gdouble
  trackingId :: guint64
  ts :: gchar_ptr
  objectId :: gchar_ptr
  sensorStr :: gchar_ptr
  otherAttrs :: gchar_ptr
  videoPath :: gchar_ptr
  extMsg :: gpointer
  extMsgSize :: guint
  pose :: NvDsJoints
  embedding :: NvDsEmbedding
  objStatusInfo :: AnalyticsObjectMeta
  boolExistLaneCross :: bool
  boolReverseDrive :: bool
  boolExistOverCrowd :: bool
  boolExistLongPark :: bool
  boolExistLoitering :: bool
  boolExistBreakIn :: bool
  boolExistJayWalk :: bool

record NvDsEvent =
  eventType :: enum_tag
  metadata :: "NvDsEventMsgMeta option"

record NvDsCustomMsgInfo =
  custom_message :: "8 word list"
  custom_size :: guint

record NvDsPayload =
  payload :: "8 word list"
  payloadSize :: guint
  payload_componentId :: guint

text \<open>The seven analytics flags of a message, in the order of their declaration.\<close>

definition analytics_flags :: "NvDsEventMsgMeta \<Rightarrow> bool list" where
  "analytics_flags m =
     [boolExistLaneCross m, boolReverseDrive m, boolExistOverCrowd m, boolExistLongPark m,
      boolExistLoitering m, boolExistBreakIn m, boolExistJayWalk m]"

subsection \<open>Attaching\<close>

text \<open>
  Lines 332 to 336 and 378 to 383:
  "You can attach various types of objects (vehicle, person, face, etc.) to an event by
  setting a pointer to the object in \<open>extMsg\<close>", and \<open>extMsgSize\<close> "holds the size
  of the custom object at \<open>extMsg\<close>": attaching is the two member assignments.
\<close>

definition attach_extMsg :: "NvDsEventMsgMeta \<Rightarrow> gpointer \<Rightarrow> guint \<Rightarrow> NvDsEventMsgMeta" where
  "attach_extMsg meta obj sz = meta\<lparr>extMsg := obj, extMsgSize := sz\<rparr>"

text \<open>
  The signature, the pose and the embedding are members held by value: each is attached
  by assigning the pair of its array pointer and its count (and the pose type).
\<close>

definition attach_objSignature :: "NvDsEventMsgMeta \<Rightarrow> NvDsObjectSignature \<Rightarrow> NvDsEventMsgMeta" where
  "attach_objSignature meta sg = meta\<lparr>objSignature := sg\<rparr>"

definition attach_pose :: "NvDsEventMsgMeta \<Rightarrow> NvDsJoints \<Rightarrow> NvDsEventMsgMeta" where
  "attach_pose meta p = meta\<lparr>pose := p\<rparr>"

definition attach_embedding :: "NvDsEventMsgMeta \<Rightarrow> NvDsEmbedding \<Rightarrow> NvDsEventMsgMeta" where
  "attach_embedding meta e = meta\<lparr>embedding := e\<rparr>"

text \<open>
  What the member comments say of the counts: \<open>size\<close> "holds the number of signature
  values in \<open>signature\<close>", \<open>num_joints\<close> "holds the number of joints",
  \<open>embedding_length\<close> "holds the length of embedding vector".
\<close>

definition signature_size_agrees :: "NvDsObjectSignature \<Rightarrow> bool" where
  "signature_size_agrees sg = (unat (signature_size sg) = length (signature sg))"

definition num_joints_agrees :: "NvDsJoints \<Rightarrow> bool" where
  "num_joints_agrees p = (sint (num_joints p) = int (length (joints p)))"

definition embedding_length_agrees :: "NvDsEmbedding \<Rightarrow> bool" where
  "embedding_length_agrees e = (unat (embedding_length e) = length (embedding_vector e))"

subsection \<open>Reading the lane slots\<close>

text \<open>
  Modelled from the spec: the consumer of the lane slots, which this header does not
  contain. "A count field states how many of the 4 slots are meaningful -- slots beyond
  the count are unspecified/ignored": the consumer reads the first \<open>laneArraySize\<close>
  slots of \<open>arrayLaneNumber\<close> and no other.
\<close>

definition meaningful_lanes :: "AnalyticsObjectMeta \<Rightarrow> gint list" where
  "meaningful_lanes a = take (nat (sint (laneArraySize a))) (arrayLaneNumber a)"

subsection \<open>Storage to construct on\<close>

text \<open>Storage whose bytes are all zero; the enumerator of value 0 stands in an enumeration member.\<close>

definition zeroed_AnalyticsObjectMeta :: AnalyticsObjectMeta where
  "zeroed_AnalyticsObjectMeta =
     \<lparr>objMoveDIrection = MOVE_UP, objStatus = VEHICLE_LONG_PARK, move_length = 0,
      time_gap_move_millisec = 0, move_speed = 0, time_gap_longstay_millisec = 0,
      arrayLaneNumber = [0, 0, 0, 0], laneArraySize = 0, reverseLaneNo = 0\<rparr>"

definition zeroed_NvDsEventMsgMeta :: NvDsEventMsgMeta where
  "zeroed_NvDsEventMsgMeta =
     \<lparr>msg_type = 0, objType = 0,
      bbox = \<lparr>rect_top = 0, rect_left = 0, rect_width = 0, rect_height = 0\<rparr>,
      location = \<lparr>lat = 0, lon = 0, alt = 0\<rparr>,
      coordinate = \<lparr>coord_x = 0, coord_y = 0, coord_z = 0\<rparr>,
      objSignature = \<lparr>signature = [], signature_size = 0\<rparr>,
      objClassId = 0, sensorId = 0, moduleId = 0, placeId = 0, componentId = 0, frameId = 0,
      confidence = 0, trackingId = 0,
      ts = None, objectId = None, sensorStr = None, otherAttrs = None, videoPath = None,
      extMsg = None, extMsgSize = 0,
      pose = \<lparr>joints = [], num_joints = 0, pose_type = 0\<rparr>,
      embedding = \<lparr>embedding_vector = [], embedding_length = 0\<rparr>,
      objStatusInfo = zeroed_AnalyticsObjectMeta,
      boolExistLaneCross = False, boolReverseDrive = False, boolExistOverCrowd = False,
      boolExistLongPark = False, boolExistLoitering = False, boolExistBreakIn = False,
      boolExistJayWalk = False\<rparr>"

text \<open>
  Storage that was in use before: the analytics block with the bit patterns of
  \<open>1.0f\<close> left in its \<open>float\<close> members, the message with one flag byte set.
\<close>

definition stale_AnalyticsObjectMeta :: AnalyticsObjectMeta where
  "stale_AnalyticsObjectMeta =
     \<lparr>objMoveDIrection = MOVE_LEFT, objStatus = PERSON_JAYWALK, move_length = 0x3F800000,
      time_gap_move_millisec = 0x3F800000, move_speed = 0x3F800000,
      time_gap_longstay_millisec = 0x3F800000,
      arrayLaneNumber = [5, 6, 7, 8], laneArraySize = 9, reverseLaneNo = 2\<rparr>"

definition stale_NvDsEventMsgMeta :: NvDsEventMsgMeta where
  "stale_NvDsEventMsgMeta =
     zeroed_NvDsEventMsgMeta\<lparr>objStatusInfo := stale_AnalyticsObjectMeta, boolExistLaneCross := True\<rparr>"

subsection \<open>Initialising a message\<close>

text \<open>
  The structure (lines 338 to 402) declares no constructor and no member initialiser, so
  what a new record holds depends on how it is initialised. The function takes the form
  of initialisation and the storage of the new object.
  \<^item> Default-initialisation (\<open>T x;\<close>, \<open>new T\<close>): the constructor C++ generates
    default-initialises each member; a scalar, a pointer or a structure without a
    constructor is left as the storage holds it, and \<open>objStatusInfo\<close> is constructed
    by the constructor of \<open>AnalyticsObjectMeta\<close>.
  \<^item> Value-initialisation (\<open>T()\<close>, \<open>new T()\<close>): the constructor is not
    user-provided, so the whole object is zeroed first and then default-initialised;
    \<open>objStatusInfo\<close> is constructed on zeroed storage.
  \<^item> List-initialisation (\<open>T{}\<close>): the structure is an aggregate and each member is
    initialised from an empty list; a scalar, a pointer or a structure without a
    constructor becomes zero, and \<open>objStatusInfo\<close>, whose class has a user-provided
    constructor, is constructed by it on its storage as it is.
\<close>

datatype initialisation =
    default_initialisation
  | value_initialisation
  | list_initialisation

fun NvDsEventMsgMeta_init :: "initialisation \<Rightarrow> NvDsEventMsgMeta \<Rightarrow> NvDsEventMsgMeta" where
  "NvDsEventMsgMeta_init default_initialisation this =
     this\<lparr>objStatusInfo := AnalyticsObjectMeta_ctor (objStatusInfo this)\<rparr>"
| "NvDsEventMsgMeta_init value_initialisation this =
     zeroed_NvDsEventMsgMeta
       \<lparr>objStatusInfo := AnalyticsObjectMeta_ctor zeroed_AnalyticsObjectMeta\<rparr>"
| "NvDsEventMsgMeta_init list_initialisation this =
     zeroed_NvDsEventMsgMeta
       \<lparr>objStatusInfo := AnalyticsObjectMeta_ctor (objStatusInfo this)\<rparr>"

subsection \<open>Destroying a message\<close>








subsection \<open>Records and objects of the scenarios\<close>

text \<open>A message tagged as a face, one tagged as a custom object, and a vehicle object.\<close>

definition face_tagged_record :: NvDsEventMsgMeta where
  "face_tagged_record =
     zeroed_NvDsEventMsgMeta\<lparr>objType := NvDsObjectType_value NVDS_OBJECT_TYPE_FACE\<rparr>"


definition sedan :: NvDsVehicleObject where
  "sedan =
     \<lparr>veh_type = Some ''sedan'', veh_make = Some ''Bugatti'', veh_model = Some ''M'',
      veh_color = Some ''blue'', veh_region = Some ''CA'', veh_license = Some ''XX1234''\<rparr>"


text \<open>
  The analytics block of the lane scenario: \<open>laneArraySize\<close> = 2,
  \<open>arrayLaneNumber\<close> = [3, 7, -1, -1], \<open>reverseLaneNo\<close> = -1.
\<close>

definition lane_scenario :: AnalyticsObjectMeta where
  "lane_scenario =
     zeroed_AnalyticsObjectMeta\<lparr>arrayLaneNumber := [3, 7, - 1, - 1], laneArraySize := 2,
                                reverseLaneNo := - 1\<rparr>"

section \<open>Properties\<close>

subsection \<open>Tag values\<close>

lemma event_tag_ranges:
  "((0 \<le> NvDsEventType_value e \<and> NvDsEventType_value e \<le> 0xFF) =
      (e \<in> {NVDS_EVENT_ENTRY, NVDS_EVENT_EXIT, NVDS_EVENT_MOVING, NVDS_EVENT_STOPPED,
            NVDS_EVENT_EMPTY, NVDS_EVENT_PARKED, NVDS_EVENT_RESET})) \<and>
   ((NvDsEventType_value e = 0x100) = (e = NVDS_EVENT_RESERVED)) \<and>
   ((0x100 < NvDsEventType_value e \<and> NvDsEventType_value e \<noteq> 0x7FFFFFFF) =
      (e \<in> {NVDS_EVENT_CUSTOM, NVDS_EVENT_FRAME_ANALYSIS})) \<and>
   ((NvDsEventType_value e = 0x7FFFFFFF) = (e = NVDS_EVENT_FORCE32))"
  by (cases e) simp_all

lemma object_tag_ranges:
  "((0 \<le> NvDsObjectType_value ob \<and> NvDsObjectType_value ob \<le> 0xFF) =
      (ob \<in> {NVDS_OBJECT_TYPE_VEHICLE, NVDS_OBJECT_TYPE_PERSON, NVDS_OBJECT_TYPE_FACE,
             NVDS_OBJECT_TYPE_BAG, NVDS_OBJECT_TYPE_BICYCLE, NVDS_OBJECT_TYPE_ROADSIGN,
             NVDS_OBJECT_TYPE_VEHICLE_EXT, NVDS_OBJECT_TYPE_PERSON_EXT,
             NVDS_OBJECT_TYPE_FACE_EXT, NVDS_OBJECT_TYPE_PRODUCT,
             NVDS_OBJECT_TYPE_PRODUCT_EXT})) \<and>
   ((NvDsObjectType_value ob = 0x100) = (ob = NVDS_OBJECT_TYPE_RESERVED)) \<and>
   ((0x100 < NvDsObjectType_value ob \<and> NvDsObjectType_value ob \<noteq> 0x7FFFFFFF) =
      (ob \<in> {NVDS_OBJECT_TYPE_CUSTOM, NVDS_OBJECT_TYPE_UNKNOWN,
             NVDS_OBJECT_TYPE_FRAME_ANALYSIS})) \<and>
   ((NvDsObjectType_value ob = 0x7FFFFFFF) = (ob = NVDS_OBEJCT_TYPE_FORCE32))"
  by (cases ob) simp_all

lemma payload_tag_ranges:
  "((0 \<le> NvDsPayloadType_value p \<and> NvDsPayloadType_value p \<le> 0xFF) =
      (p \<in> {NVDS_PAYLOAD_DEEPSTREAM, NVDS_PAYLOAD_DEEPSTREAM_MINIMAL,
            NVDS_PAYLOAD_DEEPSTREAM_PROTOBUF})) \<and>
   ((NvDsPayloadType_value p = 0x100) = (p = NVDS_PAYLOAD_RESERVED)) \<and>
   ((0x100 < NvDsPayloadType_value p \<and> NvDsPayloadType_value p \<noteq> 0x7FFFFFFF) =
      (p = NVDS_PAYLOAD_CUSTOM)) \<and>
   ((NvDsPayloadType_value p = 0x7FFFFFFF) = (p = NVDS_PAYLOAD_FORCE32))"
  by (cases p) simp_all

text \<open>
  C1, as amended. In each of the three enumerations the enumerators declared before the
  \<open>RESERVED\<close> marker are exactly the ones with a value in 0 to 0xFF; the values from
  0x100 up are not all consumer-defined, since the schema's own enumerations define
  \<open>RESERVED\<close> = 0x100 (in each the one enumerator of that value) and \<open>CUSTOM\<close> =
  0x101 in all three, \<open>NVDS_EVENT_FRAME_ANALYSIS\<close> = 0x102,
  \<open>NVDS_OBJECT_TYPE_UNKNOWN\<close> = 0x102 and \<open>NVDS_OBJECT_TYPE_FRAME_ANALYSIS\<close> = 0x103,
  and these are all the enumerators above 0x100 but \<open>FORCE32\<close>; and 0x7FFFFFFF is the
  value of the \<open>FORCE32\<close> enumerator of each enumeration and of no other enumerator.
\<close>

theorem tag_values_by_range:
  "((0 \<le> NvDsEventType_value e \<and> NvDsEventType_value e \<le> 0xFF) =
      (e \<in> {NVDS_EVENT_ENTRY, NVDS_EVENT_EXIT, NVDS_EVENT_MOVING, NVDS_EVENT_STOPPED,
            NVDS_EVENT_EMPTY, NVDS_EVENT_PARKED, NVDS_EVENT_RESET})) \<and>
   ((NvDsEventType_value e = 0x100) = (e = NVDS_EVENT_RESERVED)) \<and>
   ((0x100 < NvDsEventType_value e \<and> NvDsEventType_value e \<noteq> 0x7FFFFFFF) =
      (e \<in> {NVDS_EVENT_CUSTOM, NVDS_EVENT_FRAME_ANALYSIS})) \<and>
   ((NvDsEventType_value e = 0x7FFFFFFF) = (e = NVDS_EVENT_FORCE32)) \<and>
   ((0 \<le> NvDsObjectType_value ob \<and> NvDsObjectType_value ob \<le> 0xFF) =
      (ob \<in> {NVDS_OBJECT_TYPE_VEHICLE, NVDS_OBJECT_TYPE_PERSON, NVDS_OBJECT_TYPE_FACE,
             NVDS_OBJECT_TYPE_BAG, NVDS_OBJECT_TYPE_BICYCLE, NVDS_OBJECT_TYPE_ROADSIGN,
             NVDS_OBJECT_TYPE_VEHICLE_EXT, NVDS_OBJECT_TYPE_PERSON_EXT,
             NVDS_OBJECT_TYPE_FACE_EXT, NVDS_OBJECT_TYPE_PRODUCT,
             NVDS_OBJECT_TYPE_PRODUCT_EXT})) \<and>
   ((NvDsObjectType_value ob = 0x100) = (ob = NVDS_OBJECT_TYPE_RESERVED)) \<and>
   ((0x100 < NvDsObjectType_value ob \<and> NvDsObjectType_value ob \<noteq> 0x7FFFFFFF) =
      (ob \<in> {NVDS_OBJECT_TYPE_CUSTOM, NVDS_OBJECT_TYPE_UNKNOWN,
             NVDS_OBJECT_TYPE_FRAME_ANALYSIS})) \<and>
   ((NvDsObjectType_value ob = 0x7FFFFFFF) = (ob = NVDS_OBEJCT_TYPE_FORCE32)) \<and>
   ((0 \<le> NvDsPayloadType_value p \<and> NvDsPayloadType_value p \<le> 0xFF) =
      (p \<in> {NVDS_PAYLOAD_DEEPSTREAM, NVDS_PAYLOAD_DEEPSTREAM_MINIMAL,
            NVDS_PAYLOAD_DEEPSTREAM_PROTOBUF})) \<and>
   ((NvDsPayloadType_value p = 0x100) = (p = NVDS_PAYLOAD_RESERVED)) \<and>
   ((0x100 < NvDsPayloadType_value p \<and> NvDsPayloadType_value p \<noteq> 0x7FFFFFFF) =
      (p = NVDS_PAYLOAD_CUSTOM)) \<and>
   ((NvDsPayloadType_value p = 0x7FFFFFFF) = (p = NVDS_PAYLOAD_FORCE32)) \<and>
   NvDsEventType_value NVDS_EVENT_RESERVED = 0x100 \<and>
   NvDsObjectType_value NVDS_OBJECT_TYPE_RESERVED = 0x100 \<and>
   NvDsPayloadType_value NVDS_PAYLOAD_RESERVED = 0x100 \<and>
   NvDsEventType_value NVDS_EVENT_CUSTOM = 0x101 \<and>
   NvDsObjectType_value NVDS_OBJECT_TYPE_CUSTOM = 0x101 \<and>
   NvDsPayloadType_value NVDS_PAYLOAD_CUSTOM = 0x101 \<and>
   NvDsEventType_value NVDS_EVENT_FRAME_ANALYSIS = 0x102 \<and>
   NvDsObjectType_value NVDS_OBJECT_TYPE_UNKNOWN = 0x102 \<and>
   NvDsObjectType_value NVDS_OBJECT_TYPE_FRAME_ANALYSIS = 0x103 \<and>
   NvDsEventType_value NVDS_EVENT_FORCE32 = 0x7FFFFFFF \<and>
   NvDsObjectType_value NVDS_OBEJCT_TYPE_FORCE32 = 0x7FFFFFFF \<and>
   NvDsPayloadType_value NVDS_PAYLOAD_FORCE32 = 0x7FFFFFFF"
proof -
  have ranges:
    "((0 \<le> NvDsEventType_value e \<and> NvDsEventType_value e \<le> 0xFF) =
        (e \<in> {NVDS_EVENT_ENTRY, NVDS_EVENT_EXIT, NVDS_EVENT_MOVING, NVDS_EVENT_STOPPED,
              NVDS_EVENT_EMPTY, NVDS_EVENT_PARKED, NVDS_EVENT_RESET})) \<and>
     ((NvDsEventType_value e = 0x100) = (e = NVDS_EVENT_RESERVED)) \<and>
     ((0x100 < NvDsEventType_value e \<and> NvDsEventType_value e \<noteq> 0x7FFFFFFF) =
        (e \<in> {NVDS_EVENT_CUSTOM, NVDS_EVENT_FRAME_ANALYSIS})) \<and>
     ((NvDsEventType_value e = 0x7FFFFFFF) = (e = NVDS_EVENT_FORCE32)) \<and>
     ((0 \<le> NvDsObjectType_value ob \<and> NvDsObjectType_value ob \<le> 0xFF) =
        (ob \<in> {NVDS_OBJECT_TYPE_VEHICLE, NVDS_OBJECT_TYPE_PERSON, NVDS_OBJECT_TYPE_FACE,
               NVDS_OBJECT_TYPE_BAG, NVDS_OBJECT_TYPE_BICYCLE, NVDS_OBJECT_TYPE_ROADSIGN,
               NVDS_OBJECT_TYPE_VEHICLE_EXT, NVDS_OBJECT_TYPE_PERSON_EXT,
               NVDS_OBJECT_TYPE_FACE_EXT, NVDS_OBJECT_TYPE_PRODUCT,
               NVDS_OBJECT_TYPE_PRODUCT_EXT})) \<and>
     ((NvDsObjectType_value ob = 0x100) = (ob = NVDS_OBJECT_TYPE_RESERVED)) \<and>
     ((0x100 < NvDsObjectType_value ob \<and> NvDsObjectType_value ob \<noteq> 0x7FFFFFFF) =
        (ob \<in> {NVDS_OBJECT_TYPE_CUSTOM, NVDS_OBJECT_TYPE_UNKNOWN,
               NVDS_OBJECT_TYPE_FRAME_ANALYSIS})) \<and>
     ((NvDsObjectType_value ob = 0x7FFFFFFF) = (ob = NVDS_OBEJCT_TYPE_FORCE32)) \<and>
     ((0 \<le> NvDsPayloadType_value p \<and> NvDsPayloadType_value p \<le> 0xFF) =
        (p \<in> {NVDS_PAYLOAD_DEEPSTREAM, NVDS_PAYLOAD_DEEPSTREAM_MINIMAL,
              NVDS_PAYLOAD_DEEPSTREAM_PROTOBUF})) \<and>
     ((NvDsPayloadType_value p = 0x100) = (p = NVDS_PAYLOAD_RESERVED)) \<and>
     ((0x100 < NvDsPayloadType_value p \<and> NvDsPayloadType_value p \<noteq> 0x7FFFFFFF) =
        (p = NVDS_PAYLOAD_CUSTOM)) \<and>
     ((NvDsPayloadType_value p = 0x7FFFFFFF) = (p = NVDS_PAYLOAD_FORCE32))"
    using event_tag_ranges [of e] object_tag_ranges [of ob] payload_tag_ranges [of p]
    by blast
  have named:
    "NvDsEventType_value NVDS_EVENT_RESERVED = 0x100 \<and>
     NvDsObjectType_value NVDS_OBJECT_TYPE_RESERVED = 0x100 \<and>
     NvDsPayloadType_value NVDS_PAYLOAD_RESERVED = 0x100 \<and>
     NvDsEventType_value NVDS_EVENT_CUSTOM = 0x101 \<and>
     NvDsObjectType_value NVDS_OBJECT_TYPE_CUSTOM = 0x101 \<and>
     NvDsPayloadType_value NVDS_PAYLOAD_CUSTOM = 0x101 \<and>
     NvDsEventType_value NVDS_EVENT_FRAME_ANALYSIS = 0x102 \<and>
     NvDsObjectType_value NVDS_OBJECT_TYPE_UNKNOWN = 0x102 \<and>
     NvDsObjectType_value NVDS_OBJECT_TYPE_FRAME_ANALYSIS = 0x103 \<and>
     NvDsEventType_value NVDS_EVENT_FORCE32 = 0x7FFFFFFF \<and>
     NvDsObjectType_value NVDS_OBEJCT_TYPE_FORCE32 = 0x7FFFFFFF \<and>
     NvDsPayloadType_value NVDS_PAYLOAD_FORCE32 = 0x7FFFFFFF"
    by simp
  from ranges named have
    "(((0 \<le> NvDsEventType_value e \<and> NvDsEventType_value e \<le> 0xFF) =
        (e \<in> {NVDS_EVENT_ENTRY, NVDS_EVENT_EXIT, NVDS_EVENT_MOVING, NVDS_EVENT_STOPPED,
              NVDS_EVENT_EMPTY, NVDS_EVENT_PARKED, NVDS_EVENT_RESET})) \<and>
     ((NvDsEventType_value e = 0x100) = (e = NVDS_EVENT_RESERVED)) \<and>
     ((0x100 < NvDsEventType_value e \<and> NvDsEventType_value e \<noteq> 0x7FFFFFFF) =
        (e \<in> {NVDS_EVENT_CUSTOM, NVDS_EVENT_FRAME_ANALYSIS})) \<and>
     ((NvDsEventType_value e = 0x7FFFFFFF) = (e = NVDS_EVENT_FORCE32)) \<and>
     ((0 \<le> NvDsObjectType_value ob \<and> NvDsObjectType_value ob \<le> 0xFF) =
        (ob \<in> {NVDS_OBJECT_TYPE_VEHICLE, NVDS_OBJECT_TYPE_PERSON, NVDS_OBJECT_TYPE_FACE,
               NVDS_OBJECT_TYPE_BAG, NVDS_OBJECT_TYPE_BICYCLE, NVDS_OBJECT_TYPE_ROADSIGN,
               NVDS_OBJECT_TYPE_VEHICLE_EXT, NVDS_OBJECT_TYPE_PERSON_EXT,
               NVDS_OBJECT_TYPE_FACE_EXT, NVDS_OBJECT_TYPE_PRODUCT,
               NVDS_OBJECT_TYPE_PRODUCT_EXT})) \<and>
     ((NvDsObjectType_value ob = 0x100) = (ob = NVDS_OBJECT_TYPE_RESERVED)) \<and>
     ((0x100 < NvDsObjectType_value ob \<and> NvDsObjectType_value ob \<noteq> 0x7FFFFFFF) =
        (ob \<in> {NVDS_OBJECT_TYPE_CUSTOM, NVDS_OBJECT_TYPE_UNKNOWN,
               NVDS_OBJECT_TYPE_FRAME_ANALYSIS})) \<and>
     ((NvDsObjectType_value ob = 0x7FFFFFFF) = (ob = NVDS_OBEJCT_TYPE_FORCE32)) \<and>
     ((0 \<le> NvDsPayloadType_value p \<and> NvDsPayloadType_value p \<le> 0xFF) =
        (p \<in> {NVDS_PAYLOAD_DEEPSTREAM, NVDS_PAYLOAD_DEEPSTREAM_MINIMAL,
              NVDS_PAYLOAD_DEEPSTREAM_PROTOBUF})) \<and>
     ((NvDsPayloadType_value p = 0x100) = (p = NVDS_PAYLOAD_RESERVED)) \<and>
     ((0x100 < NvDsPayloadType_value p \<and> NvDsPayloadType_value p \<noteq> 0x7FFFFFFF) =
        (p = NVDS_PAYLOAD_CUSTOM)) \<and>
     ((NvDsPayloadType_value p = 0x7FFFFFFF) = (p = NVDS_PAYLOAD_FORCE32))) \<and>
     (NvDsEventType_value NVDS_EVENT_RESERVED = 0x100 \<and>
     NvDsObjectType_value NVDS_OBJECT_TYPE_RESERVED = 0x100 \<and>
     NvDsPayloadType_value NVDS_PAYLOAD_RESERVED = 0x100 \<and>
     NvDsEventType_value NVDS_EVENT_CUSTOM = 0x101 \<and>
     NvDsObjectType_value NVDS_OBJECT_TYPE_CUSTOM = 0x101 \<and>
     NvDsPayloadType_value NVDS_PAYLOAD_CUSTOM = 0x101 \<and>
     NvDsEventType_value NVDS_EVENT_FRAME_ANALYSIS = 0x102 \<and>
     NvDsObjectType_value NVDS_OBJECT_TYPE_UNKNOWN = 0x102 \<and>
     NvDsObjectType_value NVDS_OBJECT_TYPE_FRAME_ANALYSIS = 0x103 \<and>
     NvDsEventType_value NVDS_EVENT_FORCE32 = 0x7FFFFFFF \<and>
     NvDsObjectType_value NVDS_OBEJCT_TYPE_FORCE32 = 0x7FFFFFFF \<and>
     NvDsPayloadType_value NVDS_PAYLOAD_FORCE32 = 0x7FFFFFFF)"
    by (rule conjI)
  then show ?thesis by (elim conjE) (intro conjI, assumption+)
qed

text \<open>
  C1 as it is written fails: \<open>NVDS_OBJECT_TYPE_UNKNOWN\<close> is a tag the schema defines
  and gives a meaning of its own (the "object" key is left out of the message), and its
  value 0x102 is not in 0 to 0xFF.
\<close>

theorem object_unknown_outside_reserved_range:
  "\<not> (0 \<le> NvDsObjectType_value NVDS_OBJECT_TYPE_UNKNOWN \<and>
      NvDsObjectType_value NVDS_OBJECT_TYPE_UNKNOWN \<le> 0xFF)"
  by simp

subsection \<open>The constructor of the analytics block\<close>

lemma list_of_length_4: "length xs = 4 \<Longrightarrow> \<exists>a b c d. xs = [a, b, c, d]"
  by (auto simp: length_Suc_conv numeral_eq_Suc)

lemma ctor_arrayLaneNumber:
  "wf_AnalyticsObjectMeta this \<Longrightarrow>
   arrayLaneNumber (AnalyticsObjectMeta_ctor this) = [- 1, - 1, - 1, - 1]"
  using list_of_length_4 [of "arrayLaneNumber this"]
  by (auto simp: AnalyticsObjectMeta_ctor_def wf_AnalyticsObjectMeta_def Let_def)

lemma ctor_unassigned:
  "objMoveDIrection (AnalyticsObjectMeta_ctor this) = objMoveDIrection this"
  "objStatus (AnalyticsObjectMeta_ctor this) = objStatus this"
  "move_length (AnalyticsObjectMeta_ctor this) = move_length this"
  "time_gap_move_millisec (AnalyticsObjectMeta_ctor this) = time_gap_move_millisec this"
  "time_gap_longstay_millisec (AnalyticsObjectMeta_ctor this) = time_gap_longstay_millisec this"
  by (simp_all add: AnalyticsObjectMeta_ctor_def Let_def)

lemma ctor_assigned:
  "move_speed (AnalyticsObjectMeta_ctor this) = 0"
  "laneArraySize (AnalyticsObjectMeta_ctor this) = 0"
  "reverseLaneNo (AnalyticsObjectMeta_ctor this) = - 1"
  by (simp_all add: AnalyticsObjectMeta_ctor_def Let_def)

lemma wf_stale: "wf_AnalyticsObjectMeta stale_AnalyticsObjectMeta"
  by (simp add: wf_AnalyticsObjectMeta_def stale_AnalyticsObjectMeta_def)

lemma ctor_stale:
  "AnalyticsObjectMeta_ctor stale_AnalyticsObjectMeta =
     \<lparr>objMoveDIrection = MOVE_LEFT, objStatus = PERSON_JAYWALK, move_length = 0x3F800000,
      time_gap_move_millisec = 0x3F800000, move_speed = 0,
      time_gap_longstay_millisec = 0x3F800000,
      arrayLaneNumber = [- 1, - 1, - 1, - 1], laneArraySize = 0, reverseLaneNo = - 1\<rparr>"
  by (simp add: AnalyticsObjectMeta_ctor_def stale_AnalyticsObjectMeta_def Let_def)

text \<open>
  C7, as amended. A default-constructed analytics block has each of its four lane slots
  set to -1, \<open>laneArraySize\<close> 0, \<open>reverseLaneNo\<close> -1 and \<open>move_speed\<close> 0. The
  constructor does not set \<open>move_length\<close>, \<open>time_gap_move_millisec\<close> and
  \<open>time_gap_longstay_millisec\<close>: they are what the storage held.
\<close>

theorem analytics_ctor_defaults:
  "wf_AnalyticsObjectMeta this \<Longrightarrow>
   map sint (arrayLaneNumber (AnalyticsObjectMeta_ctor this)) = [- 1, - 1, - 1, - 1] \<and>
   sint (laneArraySize (AnalyticsObjectMeta_ctor this)) = 0 \<and>
   sint (reverseLaneNo (AnalyticsObjectMeta_ctor this)) = - 1 \<and>
   move_speed (AnalyticsObjectMeta_ctor this) = 0 \<and>
   move_length (AnalyticsObjectMeta_ctor this) = move_length this \<and>
   time_gap_move_millisec (AnalyticsObjectMeta_ctor this) = time_gap_move_millisec this \<and>
   time_gap_longstay_millisec (AnalyticsObjectMeta_ctor this) = time_gap_longstay_millisec this"
  by (simp add: ctor_arrayLaneNumber ctor_assigned ctor_unassigned)

text \<open>The theorem at storage that was in use before: the movement length stays 1.0.\<close>

theorem analytics_ctor_defaults_witness:
  "wf_AnalyticsObjectMeta stale_AnalyticsObjectMeta \<and>
   map sint (arrayLaneNumber (AnalyticsObjectMeta_ctor stale_AnalyticsObjectMeta)) =
     [- 1, - 1, - 1, - 1] \<and>
   sint (laneArraySize (AnalyticsObjectMeta_ctor stale_AnalyticsObjectMeta)) = 0 \<and>
   sint (reverseLaneNo (AnalyticsObjectMeta_ctor stale_AnalyticsObjectMeta)) = - 1 \<and>
   move_speed (AnalyticsObjectMeta_ctor stale_AnalyticsObjectMeta) = 0 \<and>
   move_length (AnalyticsObjectMeta_ctor stale_AnalyticsObjectMeta) = 0x3F800000"
  using analytics_ctor_defaults [OF wf_stale] wf_stale
  by (simp add: stale_AnalyticsObjectMeta_def)

text \<open>
  C7 as it is written fails: on that storage the constructed block has neither a zero
  movement length nor zero elapsed times.
\<close>

theorem analytics_ctor_leaves_stale_floats:
  "\<not> (move_length (AnalyticsObjectMeta_ctor stale_AnalyticsObjectMeta) = 0 \<and>
      time_gap_move_millisec (AnalyticsObjectMeta_ctor stale_AnalyticsObjectMeta) = 0 \<and>
      time_gap_longstay_millisec (AnalyticsObjectMeta_ctor stale_AnalyticsObjectMeta) = 0)"
  by (simp add: ctor_stale)

text \<open>
  C10. The constructor of the analytics block assigns \<open>move_speed\<close>, the four
  \<open>arrayLaneNumber\<close> slots, \<open>laneArraySize\<close> and \<open>reverseLaneNo\<close>, and nothing
  else: the constructed block is the storage with these four members updated, so
  \<open>objMoveDIrection\<close>, \<open>objStatus\<close>, \<open>move_length\<close>, \<open>time_gap_move_millisec\<close>
  and \<open>time_gap_longstay_millisec\<close> are whatever the storage held, not values the
  constructor defines.
\<close>

theorem analytics_ctor_assigns_exactly:
  "wf_AnalyticsObjectMeta this \<Longrightarrow>
   AnalyticsObjectMeta_ctor this =
     this\<lparr>move_speed := 0, arrayLaneNumber := [- 1, - 1, - 1, - 1], laneArraySize := 0,
          reverseLaneNo := - 1\<rparr> \<and>
   objMoveDIrection (AnalyticsObjectMeta_ctor this) = objMoveDIrection this \<and>
   objStatus (AnalyticsObjectMeta_ctor this) = objStatus this \<and>
   move_length (AnalyticsObjectMeta_ctor this) = move_length this \<and>
   time_gap_move_millisec (AnalyticsObjectMeta_ctor this) = time_gap_move_millisec this \<and>
   time_gap_longstay_millisec (AnalyticsObjectMeta_ctor this) = time_gap_longstay_millisec this"
proof -
  assume wf: "wf_AnalyticsObjectMeta this"
  have "AnalyticsObjectMeta_ctor this =
      this\<lparr>move_speed := 0, arrayLaneNumber := arrayLaneNumber (AnalyticsObjectMeta_ctor this),
           laneArraySize := 0, reverseLaneNo := - 1\<rparr>"
    by (simp add: AnalyticsObjectMeta_ctor_def Let_def)
  then show ?thesis
    using ctor_arrayLaneNumber [OF wf] by (simp add: ctor_unassigned)
qed

text \<open>The theorem at storage that was in use before, with the block it gives.\<close>

theorem analytics_ctor_assigns_exactly_witness:
  "wf_AnalyticsObjectMeta stale_AnalyticsObjectMeta \<and>
   AnalyticsObjectMeta_ctor stale_AnalyticsObjectMeta =
     \<lparr>objMoveDIrection = MOVE_LEFT, objStatus = PERSON_JAYWALK, move_length = 0x3F800000,
      time_gap_move_millisec = 0x3F800000, move_speed = 0,
      time_gap_longstay_millisec = 0x3F800000,
      arrayLaneNumber = [- 1, - 1, - 1, - 1], laneArraySize = 0, reverseLaneNo = - 1\<rparr>"
  using analytics_ctor_assigns_exactly [OF wf_stale] wf_stale
  by (simp add: stale_AnalyticsObjectMeta_def)

subsection \<open>The extension slot\<close>

lemma attach_extMsg_reads:
  "extMsg (attach_extMsg m obj sz) = obj"
  "extMsgSize (attach_extMsg m obj sz) = sz"
  "objType (attach_extMsg m obj sz) = objType m"
  by (simp_all add: attach_extMsg_def)

lemma attach_extMsg_frame:
  "(attach_extMsg m obj sz)\<lparr>extMsg := extMsg m, extMsgSize := extMsgSize m\<rparr> = m"
  by (simp add: attach_extMsg_def)

text \<open>
  C2, as amended. Reading the extension after attaching it returns the object that was
  attached, so the same kind and the same field values, and the size that was given;
  the record's object type is left as the producer declared it. The variant's kind
  equals that tag only when the producer attached a variant of the declared kind:
  nothing in the schema compares them.
\<close>

theorem attach_extMsg_read_back:
  "extMsg (attach_extMsg m (Some v) sz) = Some v \<and>
   map_option ext_object_kind (extMsg (attach_extMsg m (Some v) sz)) =
     Some (ext_object_kind v) \<and>
   extMsgSize (attach_extMsg m (Some v) sz) = sz \<and>
   objType (attach_extMsg m (Some v) sz) = objType m"
  by (simp add: attach_extMsg_reads)

text \<open>
  C2 as it is written fails: a product object attached to a record tagged as a person
  is read back from the record, whose tag is still the person's.
\<close>

theorem product_attached_to_person_record:
  "extMsg (attach_extMsg
      (zeroed_NvDsEventMsgMeta\<lparr>objType := NvDsObjectType_value NVDS_OBJECT_TYPE_PERSON\<rparr>)
      (Some (ProductObject \<lparr>prod_brand = Some ''acme'', prod_type = Some ''can'',
                            prod_shape = Some ''round''\<rparr>)) 24) =
     Some (ProductObject \<lparr>prod_brand = Some ''acme'', prod_type = Some ''can'',
                          prod_shape = Some ''round''\<rparr>) \<and>
   objType (attach_extMsg
      (zeroed_NvDsEventMsgMeta\<lparr>objType := NvDsObjectType_value NVDS_OBJECT_TYPE_PERSON\<rparr>)
      (Some (ProductObject \<lparr>prod_brand = Some ''acme'', prod_type = Some ''can'',
                            prod_shape = Some ''round''\<rparr>)) 24) =
     NvDsObjectType_value NVDS_OBJECT_TYPE_PERSON \<and>
   map_option NvDsObjectType_value
     (ext_object_kind (ProductObject \<lparr>prod_brand = Some ''acme'', prod_type = Some ''can'',
                                      prod_shape = Some ''round''\<rparr>)) \<noteq>
     Some (NvDsObjectType_value NVDS_OBJECT_TYPE_PERSON)"
  by (simp add: attach_extMsg_reads)

text \<open>
  C4, as amended. Attaching an object-kind variant whose kind differs from the record's
  declared object type is not refused: the pointer and the size are stored as given, the
  tag stays, and no other member of the record changes. The schema has no
  \<open>KindMismatch\<close>.
\<close>

theorem attach_extMsg_kind_unchecked:
  "ext_object_kind v = Some k \<Longrightarrow> objType m \<noteq> NvDsObjectType_value k \<Longrightarrow>
   extMsg (attach_extMsg m (Some v) sz) = Some v \<and>
   extMsgSize (attach_extMsg m (Some v) sz) = sz \<and>
   objType (attach_extMsg m (Some v) sz) = objType m \<and>
   (attach_extMsg m (Some v) sz)\<lparr>extMsg := extMsg m, extMsgSize := extMsgSize m\<rparr> = m"
  by (simp add: attach_extMsg_reads attach_extMsg_frame)

text \<open>The theorem for a vehicle attached to the record tagged as a face.\<close>

theorem attach_extMsg_kind_unchecked_witness:
  "ext_object_kind (VehicleObject sedan) = Some NVDS_OBJECT_TYPE_VEHICLE \<and>
   objType face_tagged_record \<noteq> NvDsObjectType_value NVDS_OBJECT_TYPE_VEHICLE \<and>
   extMsg (attach_extMsg face_tagged_record (Some (VehicleObject sedan)) 48) =
     Some (VehicleObject sedan) \<and>
   extMsgSize (attach_extMsg face_tagged_record (Some (VehicleObject sedan)) 48) = 48 \<and>
   objType (attach_extMsg face_tagged_record (Some (VehicleObject sedan)) 48) =
     NvDsObjectType_value NVDS_OBJECT_TYPE_FACE"
  using attach_extMsg_kind_unchecked
    [of "VehicleObject sedan" NVDS_OBJECT_TYPE_VEHICLE face_tagged_record 48]
  by (simp add: face_tagged_record_def)

text \<open>
  C4 as it is written fails: the vehicle is stored in the record tagged as a face, and
  the record is not what it was.
\<close>

theorem vehicle_on_face_record_is_stored:
  "attach_extMsg face_tagged_record (Some (VehicleObject sedan)) 48 \<noteq> face_tagged_record \<and>
   extMsg (attach_extMsg face_tagged_record (Some (VehicleObject sedan)) 48) =
     Some (VehicleObject sedan)"
proof -
  have "extMsg (attach_extMsg face_tagged_record (Some (VehicleObject sedan)) 48) \<noteq>
      extMsg face_tagged_record"
    by (simp add: attach_extMsg_reads face_tagged_record_def zeroed_NvDsEventMsgMeta_def)
  then have "attach_extMsg face_tagged_record (Some (VehicleObject sedan)) 48 \<noteq>
      face_tagged_record"
    by auto
  then show ?thesis by (simp add: attach_extMsg_reads)
qed



subsection \<open>Signature, pose and embedding\<close>

text \<open>
  C3, as amended. Attaching a signature, a pose or an embedding stores the pair of the
  array and its declared count as it was given and changes no other member of the
  record; the declared count equals the number of stored elements exactly when the pair
  that was given has it so. The schema has no \<open>LengthMismatch\<close>: a pair whose count
  differs from the number of elements is stored like any other.
\<close>

theorem attach_counts_unchecked:
  "objSignature (attach_objSignature m sg) = sg \<and>
   (attach_objSignature m sg)\<lparr>objSignature := objSignature m\<rparr> = m \<and>
   signature_size_agrees (objSignature (attach_objSignature m sg)) = signature_size_agrees sg \<and>
   pose (attach_pose m p) = p \<and>
   (attach_pose m p)\<lparr>pose := pose m\<rparr> = m \<and>
   num_joints_agrees (pose (attach_pose m p)) = num_joints_agrees p \<and>
   embedding (attach_embedding m e) = e \<and>
   (attach_embedding m e)\<lparr>embedding := embedding m\<rparr> = m \<and>
   embedding_length_agrees (embedding (attach_embedding m e)) = embedding_length_agrees e"
  by (simp add: attach_objSignature_def attach_pose_def attach_embedding_def)

text \<open>
  C3 as it is written fails: an embedding of two elements with the declared length 3 is
  stored, the stored count is not the number of elements, and the record has changed.
\<close>

theorem mismatched_embedding_is_stored:
  "embedding (attach_embedding zeroed_NvDsEventMsgMeta
      \<lparr>embedding_vector = [0, 0], embedding_length = 3\<rparr>) =
     \<lparr>embedding_vector = [0, 0], embedding_length = 3\<rparr> \<and>
   \<not> embedding_length_agrees (embedding (attach_embedding zeroed_NvDsEventMsgMeta
      \<lparr>embedding_vector = [0, 0], embedding_length = 3\<rparr>)) \<and>
   attach_embedding zeroed_NvDsEventMsgMeta \<lparr>embedding_vector = [0, 0], embedding_length = 3\<rparr>
     \<noteq> zeroed_NvDsEventMsgMeta"
proof -
  let ?e = "\<lparr>embedding_vector = [0, 0], embedding_length = 3\<rparr> :: NvDsEmbedding"
  have rd: "embedding (attach_embedding zeroed_NvDsEventMsgMeta ?e) = ?e"
    by (simp add: attach_embedding_def)
  have "embedding (attach_embedding zeroed_NvDsEventMsgMeta ?e) \<noteq>
      embedding zeroed_NvDsEventMsgMeta"
    unfolding rd by (simp add: zeroed_NvDsEventMsgMeta_def)
  then have ne: "attach_embedding zeroed_NvDsEventMsgMeta ?e \<noteq> zeroed_NvDsEventMsgMeta"
    by auto
  have "\<not> embedding_length_agrees ?e"
    by (simp add: embedding_length_agrees_def)
  with rd ne show ?thesis by simp
qed

subsection \<open>Lane slots\<close>

lemma wf_lane_scenario: "wf_AnalyticsObjectMeta lane_scenario"
  by (simp add: wf_AnalyticsObjectMeta_def lane_scenario_def)

text \<open>
  C8, as amended. An analytics block has four lane slots and the constructor sets
  \<open>laneArraySize\<close> to 0, so that no slot is meaningful; the schema does not bound
  \<open>laneArraySize\<close> otherwise. For every block whose \<open>laneArraySize\<close> is between 0
  and 4, the meaningful slots are the first \<open>laneArraySize\<close> ones, and a slot at an
  index at or beyond \<open>laneArraySize\<close> is ignored: whatever is written there, the
  consumer reads the same lanes.
\<close>

theorem lanes_beyond_count_ignored:
  assumes "wf_AnalyticsObjectMeta a"
    and "0 \<le> sint (laneArraySize a)" and "sint (laneArraySize a) \<le> 4"
  shows "length (meaningful_lanes a) = nat (sint (laneArraySize a)) \<and>
    (j < nat (sint (laneArraySize a)) \<longrightarrow> meaningful_lanes a ! j = arrayLaneNumber a ! j) \<and>
    (nat (sint (laneArraySize a)) \<le> i \<longrightarrow>
       meaningful_lanes (a\<lparr>arrayLaneNumber := (arrayLaneNumber a)[i := v]\<rparr>) =
         meaningful_lanes a) \<and>
    sint (laneArraySize (AnalyticsObjectMeta_ctor a)) = 0 \<and>
    meaningful_lanes (AnalyticsObjectMeta_ctor a) = []"
proof -
  have len: "length (meaningful_lanes a) = nat (sint (laneArraySize a))"
    using assms by (simp add: meaningful_lanes_def wf_AnalyticsObjectMeta_def)
  have nth: "j < nat (sint (laneArraySize a)) \<longrightarrow>
      meaningful_lanes a ! j = arrayLaneNumber a ! j"
    by (simp add: meaningful_lanes_def)
  have upd: "nat (sint (laneArraySize a)) \<le> i \<longrightarrow>
      meaningful_lanes (a\<lparr>arrayLaneNumber := (arrayLaneNumber a)[i := v]\<rparr>) =
        meaningful_lanes a"
    by (simp add: meaningful_lanes_def)
  have ctor: "sint (laneArraySize (AnalyticsObjectMeta_ctor a)) = 0 \<and>
      meaningful_lanes (AnalyticsObjectMeta_ctor a) = []"
    by (simp add: meaningful_lanes_def ctor_assigned)
  from len nth upd ctor show ?thesis by blast
qed

text \<open>
  The theorem at the lane scenario: the meaningful lanes are 3 and 7, also after
  slot 2 or slot 3 is overwritten.
\<close>

theorem lanes_beyond_count_ignored_witness:
  "wf_AnalyticsObjectMeta lane_scenario \<and> sint (laneArraySize lane_scenario) = 2 \<and>
   meaningful_lanes lane_scenario = [3, 7] \<and>
   meaningful_lanes (lane_scenario\<lparr>arrayLaneNumber := [3, 7, 9, - 1]\<rparr>) = [3, 7] \<and>
   meaningful_lanes (lane_scenario\<lparr>arrayLaneNumber := [3, 7, - 1, 9]\<rparr>) = [3, 7]"
proof -
  have s2: "sint (laneArraySize lane_scenario) = 2"
    by (simp add: lane_scenario_def)
  have lanes: "arrayLaneNumber lane_scenario = [3, 7, - 1, - 1]"
    by (simp add: lane_scenario_def)
  have a: "0 \<le> sint (laneArraySize lane_scenario)"
    and b: "sint (laneArraySize lane_scenario) \<le> 4"
    by (simp_all add: s2)
  note t2 = lanes_beyond_count_ignored
    [OF wf_lane_scenario a b, where i = 2 and v = 9 and j = 0]
  note t3 = lanes_beyond_count_ignored
    [OF wf_lane_scenario a b, where i = 3 and v = 9 and j = 1]
  have m: "meaningful_lanes lane_scenario = [3, 7]"
    by (simp add: meaningful_lanes_def s2 lanes)
  from t2 t3 m show ?thesis
    by (simp add: s2 lanes wf_lane_scenario)
qed

text \<open>
  C8 as it is written fails: a block with its four slots can carry the count 5.
\<close>

theorem lane_count_above_four:
  "wf_AnalyticsObjectMeta (zeroed_AnalyticsObjectMeta\<lparr>laneArraySize := 5\<rparr>) \<and>
   \<not> sint (laneArraySize (zeroed_AnalyticsObjectMeta\<lparr>laneArraySize := 5\<rparr>)) \<le> 4"
  by (simp add: wf_AnalyticsObjectMeta_def zeroed_AnalyticsObjectMeta_def)

subsection \<open>The analytics flags of a message\<close>

text \<open>
  C9, as amended. An event record constructed by value-initialisation or by
  list-initialisation has all seven analytics flags false, whatever the storage held;
  default-initialisation assigns none of the seven, each is then what the storage held.
  The flags are independent of one another: any combination of the seven can be set on
  one record, and setting one flag leaves the other six as they were.
\<close>

theorem event_flags_by_initialisation:
  "analytics_flags (NvDsEventMsgMeta_init value_initialisation this) =
     [False, False, False, False, False, False, False] \<and>
   analytics_flags (NvDsEventMsgMeta_init list_initialisation this) =
     [False, False, False, False, False, False, False] \<and>
   analytics_flags (NvDsEventMsgMeta_init default_initialisation this) = analytics_flags this \<and>
   analytics_flags (m\<lparr>boolExistLaneCross := b1, boolReverseDrive := b2,
       boolExistOverCrowd := b3, boolExistLongPark := b4, boolExistLoitering := b5,
       boolExistBreakIn := b6, boolExistJayWalk := b7\<rparr>) = [b1, b2, b3, b4, b5, b6, b7] \<and>
   analytics_flags (m\<lparr>boolExistLaneCross := b\<rparr>) = (analytics_flags m)[0 := b] \<and>
   analytics_flags (m\<lparr>boolReverseDrive := b\<rparr>) = (analytics_flags m)[1 := b] \<and>
   analytics_flags (m\<lparr>boolExistOverCrowd := b\<rparr>) = (analytics_flags m)[2 := b] \<and>
   analytics_flags (m\<lparr>boolExistLongPark := b\<rparr>) = (analytics_flags m)[3 := b] \<and>
   analytics_flags (m\<lparr>boolExistLoitering := b\<rparr>) = (analytics_flags m)[4 := b] \<and>
   analytics_flags (m\<lparr>boolExistBreakIn := b\<rparr>) = (analytics_flags m)[5 := b] \<and>
   analytics_flags (m\<lparr>boolExistJayWalk := b\<rparr>) = (analytics_flags m)[6 := b]"
  by (simp add: analytics_flags_def zeroed_NvDsEventMsgMeta_def)

text \<open>
  C9 as it is written fails: default-initialised on storage whose first flag byte was
  set, the record does not have all seven flags false.
\<close>

theorem default_initialised_event_keeps_stale_flag:
  "\<not> (analytics_flags (NvDsEventMsgMeta_init default_initialisation stale_NvDsEventMsgMeta) =
       [False, False, False, False, False, False, False])"
  by (simp add: analytics_flags_def stale_NvDsEventMsgMeta_def)

subsection \<open>Releasing a message\<close>





end
